theory Spec2Isabelle
  imports Main "HOL-Library.AList" "HOL-Library.Multiset"
begin

section \<open>Student feedback sentiment dashboard (app.py)\<close>

text \<open>
  A shallow embedding of \<^verbatim>\<open>src/app.py\<close>: the classifier \<^verbatim>\<open>get_sentiment\<close> with its
  memoising decorator, the two button handlers and the rendering part of the script.
  The remote chat-completion endpoint is a parameter of the model; what the script shows
  to the user (\<^verbatim>\<open>st.error\<close>, \<^verbatim>\<open>st.warning\<close>, \<^verbatim>\<open>st.success\<close>) is a list of messages in
  the state; an exception that a Python expression raises is the \<open>Inl\<close> branch of a sum.
\<close>

subsection \<open>Cell values\<close>

text \<open>
  The values a cell of the table (or the argument of \<^verbatim>\<open>get_sentiment\<close>) can hold:
  the missing value NaN, Python's None, a string, or an integer. Floats other than NaN
  and booleans are not modelled.
\<close>

datatype cell = NaN | PyNone | Str string | Num int

text \<open>Python truthiness (\<^verbatim>\<open>not text\<close> is its negation): NaN is a non-zero float, so truthy.\<close>

fun truthy :: "cell \<Rightarrow> bool" where
  "truthy NaN = True"
| "truthy PyNone = False"
| "truthy (Str s) = (s \<noteq> [])"
| "truthy (Num n) = (n \<noteq> 0)"

text \<open>\<^verbatim>\<open>pd.isna\<close> on a scalar.\<close>

fun isna :: "cell \<Rightarrow> bool" where
  "isna NaN = True"
| "isna PyNone = True"
| "isna (Str s) = False"
| "isna (Num n) = False"

text \<open>Elementwise \<^verbatim>\<open>==\<close> of pandas: a missing value equals nothing, not even itself.\<close>

fun cell_eq :: "cell \<Rightarrow> cell \<Rightarrow> bool" where
  "cell_eq (Str a) (Str b) = (a = b)"
| "cell_eq (Num a) (Num b) = (a = b)"
| "cell_eq _ _ = False"

text \<open>Decimal digits of a natural number, and \<^verbatim>\<open>str\<close> as the f-string applies it.\<close>

fun digits10 :: "nat \<Rightarrow> string" where
  "digits10 n =
     (if n < 10 then [char_of (48 + n)]
      else digits10 (n div 10) @ [char_of (48 + n mod 10)])"

declare digits10.simps [simp del]

fun py_str :: "cell \<Rightarrow> string" where
  "py_str NaN = ''nan''"
| "py_str PyNone = ''None''"
| "py_str (Str s) = s"
| "py_str (Num n) = (if n < 0 then CHR ''-'' # digits10 (nat (- n)) else digits10 (nat n))"

text \<open>
  \<^verbatim>\<open>str.strip()\<close>: leading and trailing whitespace removed. A character of a string
  is a code point below 256 (the file is read as latin1); those that Python takes for
  whitespace are tab, line feed, vertical tab, form feed, carriage return (9 to 13), the
  four separators 28 to 31, space (32), next line (133) and no-break space (160).
\<close>

definition is_space :: "char \<Rightarrow> bool" where
  "is_space c =
     (let k = (of_char c :: nat)
      in (9 \<le> k \<and> k \<le> 13) \<or> (28 \<le> k \<and> k \<le> 32) \<or> k = 133 \<or> k = 160)"

definition strip :: "string \<Rightarrow> string" where
  "strip s = rev (dropWhile is_space (rev (dropWhile is_space s)))"

subsection \<open>Exceptions, messages, the remote endpoint\<close>

datatype exn =
    APIError string
  | IndexError
  | AttributeError
  | KeyError "string list"
  | NameError string
  | TypeError

text \<open>Every call of \<^verbatim>\<open>st.error\<close>, \<^verbatim>\<open>st.warning\<close> and \<^verbatim>\<open>st.success\<close> in the script.\<close>

datatype message =
    ApiErrorMsg exn
  | DatasetLoaded
  | DatasetNotFound
  | AnalysisCompleted
  | SomethingWentWrong exn
  | IngestFirst
  | NoIdColumn

datatype severity = Error | Warning | Success

fun severity_of :: "message \<Rightarrow> severity" where
  "severity_of (ApiErrorMsg e) = Error"
| "severity_of DatasetLoaded = Success"
| "severity_of DatasetNotFound = Error"
| "severity_of AnalysisCompleted = Success"
| "severity_of (SomethingWentWrong e) = Error"
| "severity_of IngestFirst = Warning"
| "severity_of NoIdColumn = Warning"

record request =
  model :: string
  system_content :: string
  user_content :: string
  temperature :: int
  max_tokens :: nat

text \<open>
  What \<^verbatim>\<open>openai.chat.completions.create\<close> does: it raises, or it returns a response
  whose \<^verbatim>\<open>choices\<close> each hold a message content (a string, or None).
\<close>

datatype response = Raises string | Choices "string option list"

text \<open>The endpoint answers a request knowing the requests sent before it.\<close>

type_synonym endpoint = "request list \<Rightarrow> request \<Rightarrow> response"

subsection \<open>Tables\<close>

text \<open>
  A DataFrame with the default row index \<open>0, 1, \<dots>\<close>: the number of rows and the columns
  in order, each a name and its cells. This is what \<^verbatim>\<open>read_csv\<close> followed by \<^verbatim>\<open>head\<close>
  produces for a file none of whose rows has more fields than the header; a table whose
  rows are labelled otherwise is not in the model, so the label of a row is its position.
\<close>

record dataframe =
  nrows :: nat
  columns :: "(string \<times> cell list) list"

definition wf_df :: "dataframe \<Rightarrow> bool" where
  "wf_df d = (list_all (\<lambda>(n, c). length c = nrows d) (columns d) \<and> distinct (map fst (columns d)))"

definition column :: "dataframe \<Rightarrow> string \<Rightarrow> cell list option" where
  "column d name = map_of (columns d) name"

definition head_df :: "nat \<Rightarrow> dataframe \<Rightarrow> dataframe" where
  "head_df k d = \<lparr>nrows = min k (nrows d), columns = map (\<lambda>(n, c). (n, take k c)) (columns d)\<rparr>"

subsection \<open>State\<close>

text \<open>
  \<open>session_df\<close> is \<^verbatim>\<open>st.session_state["df"]\<close> (None while the key is absent), \<open>cache\<close> the
  store of \<^verbatim>\<open>@st.cache_data\<close> for \<^verbatim>\<open>get_sentiment\<close> (under each argument the value
  returned and the messages the call showed), \<open>calls\<close> the requests sent to the endpoint
  so far, \<open>messages\<close> what has been shown to the user.
\<close>

record state =
  session_df :: "dataframe option"
  cache :: "(cell \<times> string \<times> message list) list"
  calls :: "request list"
  messages :: "message list"

definition init_state :: state where
  "init_state = \<lparr>session_df = None, cache = [], calls = [], messages = []\<rparr>"

type_synonym classifier = "cell \<Rightarrow> state \<Rightarrow> (exn + string) \<times> state"

subsection \<open>The classifier\<close>

definition sentiment_request :: "cell \<Rightarrow> request" where
  "sentiment_request text =
     \<lparr>model = ''gpt-4o-mini'',
      system_content = ''Classify the sentiment of the following feedback as exactly one word: Positive, Negative, or Neutral.'',
      user_content = ''What's the sentiment of this feedback? '' @ py_str text,
      temperature = 0,
      max_tokens = 10\<rparr>"

text \<open>\<^verbatim>\<open>response.choices[0].message.content.strip()\<close>, with what each step can raise.\<close>

fun first_content :: "response \<Rightarrow> exn + string" where
  "first_content (Raises m) = Inl (APIError m)"
| "first_content (Choices []) = Inl IndexError"
| "first_content (Choices (None # cs)) = Inl AttributeError"
| "first_content (Choices (Some c # cs)) = Inr (strip c)"

text \<open>The body of \<^verbatim>\<open>get_sentiment\<close>, without the decorator.\<close>

definition get_sentiment_body :: "endpoint \<Rightarrow> classifier" where
  "get_sentiment_body remote text s =
     (if \<not> truthy text \<or> isna text then (Inr ''Neutral'', s)
      else
        let req = sentiment_request text;
            s1 = s\<lparr>calls := calls s @ [req]\<rparr>
        in case first_content (remote (calls s) req) of
             Inr label \<Rightarrow> (Inr label, s1)
           | Inl e \<Rightarrow> (Inr ''Neutral'', s1\<lparr>messages := messages s1 @ [ApiErrorMsg e]\<rparr>))"

text \<open>
  \<^verbatim>\<open>@st.cache_data\<close>: a call whose argument is in the store does not run the body; it
  returns the stored value and shows again the messages that the stored call showed.
  Otherwise the body runs and, when it returns, its value is stored under the argument
  together with the messages it showed. Nothing is stored when the body raises. Entries
  are never removed (the decorator is used without \<^verbatim>\<open>ttl\<close> or \<^verbatim>\<open>max_entries\<close>).
\<close>

definition cache_data :: "classifier \<Rightarrow> classifier" where
  "cache_data f key s =
     (case map_of (cache s) key of
        Some (v, shown) \<Rightarrow> (Inr v, s\<lparr>messages := messages s @ shown\<rparr>)
      | None \<Rightarrow>
          (case f key s of
             (Inr v, s1) \<Rightarrow>
               (Inr v, s1\<lparr>cache := (key, v, drop (length (messages s)) (messages s1)) # cache s1\<rparr>)
           | (Inl e, s1) \<Rightarrow> (Inl e, s1)))"

definition get_sentiment :: "endpoint \<Rightarrow> classifier" where
  "get_sentiment remote = cache_data (get_sentiment_body remote)"

text \<open>The store is sound for missing input: it never maps one to anything but Neutral.\<close>

definition cache_sound :: "(cell \<times> string \<times> message list) list \<Rightarrow> bool" where
  "cache_sound c = list_all (\<lambda>(k, v, shown). \<not> truthy k \<or> isna k \<longrightarrow> v = ''Neutral'') c"

text \<open>Classifying a list of texts one after the other.\<close>

fun classify_all :: "endpoint \<Rightarrow> cell list \<Rightarrow> state \<Rightarrow> state" where
  "classify_all remote [] s = s"
| "classify_all remote (t # ts) s = classify_all remote ts (snd (get_sentiment remote t s))"

subsection \<open>Load Dataset\<close>

text \<open>
  The argument is what \<^verbatim>\<open>pd.read_csv\<close> returns for the file of the fixed path, None when
  it raises FileNotFoundError.
\<close>

definition load_dataset :: "dataframe option \<Rightarrow> state \<Rightarrow> state" where
  "load_dataset file s =
     (case file of
        Some d \<Rightarrow> s\<lparr>session_df := Some (head_df 50 d), messages := messages s @ [DatasetLoaded]\<rparr>
      | None \<Rightarrow> s\<lparr>messages := messages s @ [DatasetNotFound]\<rparr>)"

subsection \<open>Analyze Sentiment\<close>

text \<open>\<^verbatim>\<open>Series.apply(f)\<close>: the function is called on the cells in order; an exception ends it.\<close>

fun series_apply :: "classifier \<Rightarrow> cell list \<Rightarrow> state \<Rightarrow> (exn + cell list) \<times> state" where
  "series_apply f [] s = (Inr [], s)"
| "series_apply f (x # xs) s =
     (case f x s of
        (Inl e, s1) \<Rightarrow> (Inl e, s1)
      | (Inr v, s1) \<Rightarrow>
          (case series_apply f xs s1 of
             (Inl e, s2) \<Rightarrow> (Inl e, s2)
           | (Inr vs, s2) \<Rightarrow> (Inr (Str v # vs), s2)))"

text \<open>
  The dtype of a column decides whether a string may be written into it: a column whose
  cells are all numbers or empty has a numeric dtype (an all-empty column is float64).
\<close>

fun numeric_cell :: "cell \<Rightarrow> bool" where
  "numeric_cell NaN = True"
| "numeric_cell (Num n) = True"
| "numeric_cell PyNone = False"
| "numeric_cell (Str s) = False"

definition numeric_dtype :: "cell list \<Rightarrow> bool" where
  "numeric_dtype col = (col \<noteq> [] \<and> list_all numeric_cell col)"

text \<open>
  \<^verbatim>\<open>df.loc[:4, "Sentiment"] = values\<close>, where \<open>values\<close> is a Series of strings indexed
  \<open>0, 1, \<dots>\<close>: the label slice \<open>:4\<close> takes the rows labelled 0 to 4 (both ends included);
  each of them gets the value of its label, NaN if the Series has none. The other rows
  keep their cell when the column exists; a column that does not exist is created,
  filled with NaN (\<open>sentiment_written\<close>). The repository pins no version of pandas:
  \<open>strict\<close> says that the library refuses to write a string into an existing column of a
  numeric dtype and raises TypeError, writing nothing (pandas 3); otherwise it converts
  the column (pandas 2).
\<close>

definition sentiment_written :: "dataframe \<Rightarrow> cell list \<Rightarrow> dataframe" where
  "sentiment_written d vals =
     (let old = (case column d ''Sentiment'' of Some c \<Rightarrow> c | None \<Rightarrow> replicate (nrows d) NaN);
          new = map (\<lambda>i. if i \<le> 4 then (if i < length vals then vals ! i else NaN) else old ! i)
                    [0..<nrows d]
      in d\<lparr>columns := AList.update ''Sentiment'' new (columns d)\<rparr>)"

definition loc_set_sentiment :: "bool \<Rightarrow> dataframe \<Rightarrow> cell list \<Rightarrow> exn + dataframe" where
  "loc_set_sentiment strict d vals =
     (if strict \<and> (case column d ''Sentiment'' of Some c \<Rightarrow> numeric_dtype c | None \<Rightarrow> False)
         \<and> vals \<noteq> []
      then Inl TypeError
      else Inr (sentiment_written d vals))"

text \<open>
  The body of the \<^verbatim>\<open>try\<close> of the button handler, for any classifier. The right-hand side
  of the assignment is evaluated first (\<^verbatim>\<open>df["comment"]\<close> raises KeyError without the
  column, and every label is computed), then the table of the session is written by the
  one assignment, then the success message is shown. The result is the exception that
  leaves the block, with the state reached when it was raised.
\<close>

definition analyze_try :: "bool \<Rightarrow> classifier \<Rightarrow> state \<Rightarrow> (exn + unit) \<times> state" where
  "analyze_try strict clf s =
     (case session_df s of
        None \<Rightarrow> (Inl (KeyError [''df'']), s)
      | Some d \<Rightarrow>
          (case column d ''comment'' of
             None \<Rightarrow> (Inl (KeyError [''comment'']), s)
           | Some col \<Rightarrow>
               (case series_apply clf (take 5 col) s of
                  (Inl e, s1) \<Rightarrow> (Inl e, s1)
                | (Inr vals, s1) \<Rightarrow>
                    (case session_df s1 of
                       None \<Rightarrow> (Inl (KeyError [''df'']), s1)
                     | Some d1 \<Rightarrow>
                         (case loc_set_sentiment strict d1 vals of
                            Inl e \<Rightarrow> (Inl e, s1)
                          | Inr d2 \<Rightarrow>
                              (Inr (), s1\<lparr>session_df := Some d2,
                                          messages := messages s1 @ [AnalysisCompleted]\<rparr>))))))"

text \<open>The button handler: \<^verbatim>\<open>except Exception\<close> turns the exception into a message.\<close>

definition analyze_with :: "bool \<Rightarrow> classifier \<Rightarrow> state \<Rightarrow> state" where
  "analyze_with strict clf s =
     (if session_df s \<noteq> None then
        (case analyze_try strict clf s of
           (Inr u, s1) \<Rightarrow> s1
         | (Inl e, s1) \<Rightarrow> s1\<lparr>messages := messages s1 @ [SomethingWentWrong e]\<rparr>)
      else s\<lparr>messages := messages s @ [IngestFirst]\<rparr>)"

definition analyze_sentiment :: "bool \<Rightarrow> endpoint \<Rightarrow> state \<Rightarrow> state" where
  "analyze_sentiment strict remote = analyze_with strict (get_sentiment remote)"

text \<open>The Sentiment cell of row \<open>i\<close>; NaN when the table has no such column.\<close>

definition sentiment_at :: "dataframe \<Rightarrow> nat \<Rightarrow> cell" where
  "sentiment_at d i = (case column d ''Sentiment'' of Some c \<Rightarrow> c ! i | None \<Rightarrow> NaN)"

definition carries_sentiment :: "dataframe \<Rightarrow> nat \<Rightarrow> bool" where
  "carries_sentiment d i = (\<not> isna (sentiment_at d i))"

subsection \<open>Filtering by student\<close>

definition has_column :: "dataframe \<Rightarrow> string \<Rightarrow> bool" where
  "has_column d name = (name \<in> set (map fst (columns d)))"

text \<open>\<^verbatim>\<open>Series.unique()\<close>: the distinct values in the order of their first appearance.\<close>

definition unique :: "cell list \<Rightarrow> cell list" where
  "unique xs = rev (remdups (rev xs))"

text \<open>
  \<^verbatim>\<open>st.selectbox\<close> returns one of its options: the one the user chose (by position), the
  first one when nothing was chosen.
\<close>

definition selectbox :: "cell list \<Rightarrow> nat \<Rightarrow> cell" where
  "selectbox options choice = (if choice < length options then options ! choice else options ! 0)"

text \<open>\<^verbatim>\<open>df[mask]\<close>: the rows at which the boolean mask holds, in order, all columns kept.\<close>

definition select_rows :: "bool list \<Rightarrow> dataframe \<Rightarrow> dataframe" where
  "select_rows keep d =
     \<lparr>nrows = length (filter (\<lambda>b. b) keep),
      columns = map (\<lambda>(n, c). (n, map fst (filter snd (zip c keep)))) (columns d)\<rparr>"

definition filter_by_id :: "dataframe \<Rightarrow> cell list \<Rightarrow> cell \<Rightarrow> dataframe" where
  "filter_by_id df ids selected_id =
     (if selected_id \<noteq> Str ''All IDs'' then select_rows (map (\<lambda>v. cell_eq v selected_id) ids) df
      else df)"

text \<open>Row \<open>i\<close> of a table as the list of its named cells, and the rows of a table.\<close>

definition row :: "dataframe \<Rightarrow> nat \<Rightarrow> (string \<times> cell) list" where
  "row d i = map (\<lambda>(n, c). (n, c ! i)) (columns d)"

definition rows :: "dataframe \<Rightarrow> (string \<times> cell) list list" where
  "rows d = map (row d) [0..<nrows d]"

text \<open>\<^verbatim>\<open>df[[names]]\<close>: the named columns; KeyError names the ones that are not there.\<close>

definition select_columns :: "dataframe \<Rightarrow> string list \<Rightarrow> exn + dataframe" where
  "select_columns d names =
     (case filter (\<lambda>n. \<not> has_column d n) names of
        [] \<Rightarrow> Inr (d\<lparr>columns := map (\<lambda>n. (n, the (column d n))) names\<rparr>)
      | missing \<Rightarrow> Inl (KeyError missing))"

subsection \<open>Sentiment breakdown\<close>

text \<open>
  \<^verbatim>\<open>Series.value_counts().reset_index()\<close>: one row for each distinct value that is not
  missing, with the number of its occurrences, the larger counts first.
\<close>

definition value_counts :: "cell list \<Rightarrow> (cell \<times> nat) list" where
  "value_counts col =
     (let xs = filter (\<lambda>v. \<not> isna v) col
      in sort_key (\<lambda>(v, c). - int c) (map (\<lambda>v. (v, count_list xs v)) (unique xs)))"

definition sentiment_order :: "string list" where
  "sentiment_order = [''Negative'', ''Neutral'', ''Positive'']"

definition sentiment_colors :: "(string \<times> string) list" where
  "sentiment_colors = [(''Negative'', ''red''), (''Neutral'', ''lightgray''), (''Positive'', ''green'')]"

definition existing_sentiments :: "(cell \<times> nat) list \<Rightarrow> cell list" where
  "existing_sentiments sentiment_counts = unique (map fst sentiment_counts)"

definition filtered_order :: "(cell \<times> nat) list \<Rightarrow> string list" where
  "filtered_order sentiment_counts =
     filter (\<lambda>s. list_ex (cell_eq (Str s)) (existing_sentiments sentiment_counts)) sentiment_order"

text \<open>The colours of the categories that exist, in the order of \<open>existing_sentiments\<close>.\<close>

definition filtered_colors :: "(cell \<times> nat) list \<Rightarrow> (string \<times> string) list" where
  "filtered_colors sentiment_counts =
     List.map_filter
       (\<lambda>v. case v of Str s \<Rightarrow> map_option (\<lambda>c. (s, c)) (map_of sentiment_colors s) | _ \<Rightarrow> None)
       (existing_sentiments sentiment_counts)"

text \<open>
  \<^verbatim>\<open>pd.Categorical(values, categories, ordered=True)\<close> gives each value the position of
  its category, none to a value that is no category; \<^verbatim>\<open>sort_values\<close> orders the rows by
  that position, the rows without one last.
\<close>

fun category_code :: "string list \<Rightarrow> cell \<Rightarrow> nat option" where
  "category_code [] v = None"
| "category_code (c # cs) v =
     (if cell_eq (Str c) v then Some 0 else map_option Suc (category_code cs v))"

definition sort_values :: "string list \<Rightarrow> (cell \<times> nat) list \<Rightarrow> (string option \<times> nat) list" where
  "sort_values categories sentiment_counts =
     map (\<lambda>(code, n). (map_option (\<lambda>i. categories ! i) code, n))
       (sort_key (\<lambda>(code, n). case code of Some i \<Rightarrow> i | None \<Rightarrow> length categories)
          (map (\<lambda>(v, n). (category_code categories v, n)) sentiment_counts))"

text \<open>What is handed to \<^verbatim>\<open>px.bar\<close>: the rows (category, count), the category order and the colours.\<close>

record chart =
  bars :: "(string option \<times> nat) list"
  category_order :: "string list"
  color_discrete_map :: "(string \<times> string) list"

definition sentiment_chart :: "cell list \<Rightarrow> chart" where
  "sentiment_chart col =
     (let sentiment_counts = value_counts col;
          order = filtered_order sentiment_counts
      in \<lparr>bars = sort_values order sentiment_counts, category_order = order,
          color_discrete_map = filtered_colors sentiment_counts\<rparr>)"

subsection \<open>Rendering\<close>

record view =
  feedback :: dataframe
  breakdown :: "chart option"

text \<open>
  The part of the script after the buttons, run when a table is in the session; \<open>choice\<close>
  is the position the user chose in the select box. The result is the exception that ends
  the run, or what is displayed; the state carries the messages shown until then.
  \<open>selected_id\<close> is bound only in the branch with an Id column.
\<close>

definition render :: "nat \<Rightarrow> state \<Rightarrow> (exn + view option) \<times> state" where
  "render choice s =
     (case session_df s of
        None \<Rightarrow> (Inr None, s)
      | Some df \<Rightarrow>
          (let (selected_id, filtered_df, s1) =
                 (case column df ''Id'' of
                    Some ids \<Rightarrow>
                      (let sel = selectbox (Str ''All IDs'' # unique ids) choice
                       in (Some sel, filter_by_id df ids sel, s))
                  | None \<Rightarrow> (None, df, s\<lparr>messages := messages s @ [NoIdColumn]\<rparr>))
           in case select_columns filtered_df [''Id'', ''comment''] of
                Inl e \<Rightarrow> (Inl e, s1)
              | Inr shown \<Rightarrow>
                  (if has_column df ''Sentiment'' then
                     (case selected_id of
                        None \<Rightarrow> (Inl (NameError ''selected_id''), s1)
                      | Some sel \<Rightarrow>
                          (case column filtered_df ''Sentiment'' of
                             None \<Rightarrow> (Inl (KeyError [''Sentiment'']), s1)
                           | Some col \<Rightarrow>
                               (Inr (Some \<lparr>feedback = shown, breakdown = Some (sentiment_chart col)\<rparr>), s1)))
                   else (Inr (Some \<lparr>feedback = shown, breakdown = None\<rparr>), s1))))"

subsection \<open>Endpoints and tables of the examples\<close>

text \<open>An endpoint that answers every request with the same content.\<close>

definition replying :: "string \<Rightarrow> endpoint" where
  "replying content history req = Choices [Some content]"

text \<open>A table of six rows that comes with a Sentiment column of its own.\<close>

definition labelled_table :: dataframe where
  "labelled_table =
     \<lparr>nrows = 6,
      columns =
        [(''Id'', [Num 1, Num 2, Num 3, Num 4, Num 5, Num 6]),
         (''comment'', [Str ''a'', Str ''b'', Str ''c'', Str ''d'', Str ''e'', Str ''f'']),
         (''Sentiment'', [NaN, NaN, NaN, NaN, NaN, Str ''Positive''])]\<rparr>"

text \<open>A table of six rows without one.\<close>

definition plain_table :: dataframe where
  "plain_table =
     \<lparr>nrows = 6,
      columns =
        [(''Id'', [Num 1, Num 2, Num 3, Num 4, Num 5, Num 6]),
         (''comment'', [Str ''a'', Str ''b'', Str ''c'', Str ''d'', Str ''e'', Str ''f''])]\<rparr>"

text \<open>A table of two rows whose Sentiment column is there and empty.\<close>

definition empty_sentiment_table :: dataframe where
  "empty_sentiment_table =
     \<lparr>nrows = 2,
      columns =
        [(''Id'', [Num 1, Num 2]),
         (''comment'', [Str ''good'', Str ''bad'']),
         (''Sentiment'', [NaN, NaN])]\<rparr>"

text \<open>A table of two rows with an Id column and no comment column.\<close>

definition no_comment_table :: dataframe where
  "no_comment_table = \<lparr>nrows = 2, columns = [(''Id'', [Num 1, Num 2])]\<rparr>"

text \<open>A table of two rows whose first identifier is the text of the sentinel.\<close>

definition sentinel_table :: dataframe where
  "sentinel_table =
     \<lparr>nrows = 2,
      columns =
        [(''Id'', [Str ''All IDs'', Str ''s1'']),
         (''comment'', [Str ''good'', Str ''bad''])]\<rparr>"

text \<open>A table of two rows with a comment column and no Id column.\<close>

definition no_id_table :: dataframe where
  "no_id_table = \<lparr>nrows = 2, columns = [(''comment'', [Str ''good'', Str ''bad''])]\<rparr>"

section \<open>Properties of the classifier\<close>

lemma body_never_raises: "\<exists>label s1. get_sentiment_body remote text s = (Inr label, s1)"
  by (simp add: get_sentiment_body_def Let_def split: sum.split)

lemma body_cache: "cache (snd (get_sentiment_body remote text s)) = cache s"
  by (simp add: get_sentiment_body_def Let_def split: sum.split)

lemma body_session_df: "session_df (snd (get_sentiment_body remote text s)) = session_df s"
  by (simp add: get_sentiment_body_def Let_def split: sum.split)

lemma body_messages: "take (length (messages s)) (messages (snd (get_sentiment_body remote text s))) = messages s"
  by (simp add: get_sentiment_body_def Let_def split: sum.split)

lemma body_calls_le: "length (calls (snd (get_sentiment_body remote text s))) \<le> Suc (length (calls s))"
  by (simp add: get_sentiment_body_def Let_def split: sum.split)

lemma get_sentiment_never_raises: "\<exists>label s1. get_sentiment remote text s = (Inr label, s1)"
proof (cases "map_of (cache s) text")
  case None
  obtain label s1 where b: "get_sentiment_body remote text s = (Inr label, s1)"
    using body_never_raises by blast
  with None show ?thesis by (simp add: get_sentiment_def cache_data_def)
next
  case (Some u)
  then show ?thesis by (cases u) (simp add: get_sentiment_def cache_data_def)
qed

lemma get_sentiment_hit:
  "map_of (cache s) text = Some u \<Longrightarrow>
     get_sentiment remote text s = (Inr (fst u), s\<lparr>messages := messages s @ snd u\<rparr>)"
  by (cases u) (simp add: get_sentiment_def cache_data_def)

lemma get_sentiment_miss:
  assumes "map_of (cache s) text = None"
    and "get_sentiment_body remote text s = (Inr v, s1)"
  shows "get_sentiment remote text s
           = (Inr v, s1\<lparr>cache := (text, v, drop (length (messages s)) (messages s1)) # cache s\<rparr>)"
proof -
  have "cache s1 = cache s" using body_cache [of remote "text" s] assms(2) by simp
  with assms show ?thesis by (simp add: get_sentiment_def cache_data_def)
qed

lemma get_sentiment_stores:
  assumes "get_sentiment remote text s = (Inr v, s1)"
  shows "\<exists>shown. map_of (cache s1) text = Some (v, shown)"
proof (cases "map_of (cache s) text")
  case None
  obtain l b where b: "get_sentiment_body remote text s = (Inr l, b)"
    using body_never_raises by blast
  from get_sentiment_miss [OF None b] assms show ?thesis by auto
next
  case (Some u)
  with assms show ?thesis by (cases u) (auto simp add: get_sentiment_hit)
qed

lemma get_sentiment_keeps:
  assumes "map_of (cache s) k = Some u"
  shows "map_of (cache (snd (get_sentiment remote text s))) k = Some u"
proof (cases "map_of (cache s) text")
  case None
  obtain l b where b: "get_sentiment_body remote text s = (Inr l, b)"
    using body_never_raises by blast
  from None assms have "k \<noteq> text" by auto
  with get_sentiment_miss [OF None b] assms show ?thesis by simp
next
  case (Some w)
  with assms show ?thesis by (simp add: get_sentiment_hit)
qed

lemma classify_all_keeps:
  "map_of (cache s) k = Some u \<Longrightarrow> map_of (cache (classify_all remote ts s)) k = Some u"
  by (induction ts arbitrary: s) (simp_all add: get_sentiment_keeps)

lemma get_sentiment_calls_le:
  "length (calls (snd (get_sentiment remote text s))) \<le> Suc (length (calls s))"
proof (cases "map_of (cache s) text")
  case None
  obtain l b where b: "get_sentiment_body remote text s = (Inr l, b)"
    using body_never_raises by blast
  from body_calls_le [of remote "text" s] b have "length (calls b) \<le> Suc (length (calls s))" by simp
  with get_sentiment_miss [OF None b] show ?thesis by simp
next
  case (Some u)
  then show ?thesis by (simp add: get_sentiment_hit)
qed

lemma cache_sound_body:
  "get_sentiment_body remote text s = (Inr v, s1) \<Longrightarrow> \<not> truthy text \<or> isna text \<Longrightarrow> v = ''Neutral''"
  by (auto simp add: get_sentiment_body_def)

lemma cache_sound_lookup:
  "cache_sound c \<Longrightarrow> map_of c k = Some (v, shown) \<Longrightarrow> \<not> truthy k \<or> isna k \<Longrightarrow> v = ''Neutral''"
  by (induction c) (auto simp add: cache_sound_def split: if_splits)

lemma cache_sound_init: "cache_sound (cache init_state)"
  by (simp add: cache_sound_def init_state_def)

lemma cache_sound_get_sentiment:
  assumes "cache_sound (cache s)"
  shows "cache_sound (cache (snd (get_sentiment remote text s)))"
proof (cases "map_of (cache s) text")
  case None
  obtain l b where b: "get_sentiment_body remote text s = (Inr l, b)"
    using body_never_raises by blast
  have "\<not> truthy text \<or> isna text \<longrightarrow> l = ''Neutral''" using cache_sound_body [OF b] by blast
  with get_sentiment_miss [OF None b] assms show ?thesis by (simp add: cache_sound_def)
next
  case (Some u)
  with assms show ?thesis by (simp add: get_sentiment_hit)
qed

lemma cache_sound_classify_all:
  "cache_sound (cache s) \<Longrightarrow> cache_sound (cache (classify_all remote ts s))"
  by (induction ts arbitrary: s) (simp_all add: cache_sound_get_sentiment)

text \<open>
  A stored call shows its messages again: after a first call whose remote call failed, a
  second call of the same text, whatever the endpoint would answer by then, returns
  Neutral, sends nothing and shows the error once more.
\<close>

lemma get_sentiment_replays:
  assumes "truthy text" and "\<not> isna text" and "map_of (cache s) text = None"
    and "first_content (remote (calls s) (sentiment_request text)) = Inl e"
  shows "get_sentiment later text (snd (get_sentiment remote text s))
           = (Inr ''Neutral'',
              (snd (get_sentiment remote text s))\<lparr>messages := messages s @ [ApiErrorMsg e, ApiErrorMsg e]\<rparr>)"
proof -
  have b: "get_sentiment_body remote text s =
      (Inr ''Neutral'', s\<lparr>calls := calls s @ [sentiment_request text],
                          messages := messages s @ [ApiErrorMsg e]\<rparr>)"
    using assms(1,2,4) by (simp add: get_sentiment_body_def Let_def)
  from get_sentiment_miss [OF assms(3) b]
  have g: "get_sentiment remote text s =
      (Inr ''Neutral'', s\<lparr>calls := calls s @ [sentiment_request text],
                          messages := messages s @ [ApiErrorMsg e],
                          cache := (text, ''Neutral'', [ApiErrorMsg e]) # cache s\<rparr>)"
    by simp
  then have "map_of (cache (snd (get_sentiment remote text s))) text = Some (''Neutral'', [ApiErrorMsg e])"
    by simp
  from get_sentiment_hit [OF this, of later] g show ?thesis by simp
qed

text \<open>
  C2. When the text is empty or missing (the empty string, None or NaN), \<^verbatim>\<open>get_sentiment\<close>
  returns Neutral and sends nothing to the endpoint: the body returns at once with the
  state unchanged, and so does the memoised function in every state whose store is sound.
\<close>

theorem get_sentiment_missing_is_neutral:
  assumes "text = Str [] \<or> text = PyNone \<or> text = NaN"
    and "cache_sound (cache s)"
  shows "get_sentiment_body remote text s = (Inr ''Neutral'', s)
       \<and> fst (get_sentiment remote text s) = Inr ''Neutral''
       \<and> calls (snd (get_sentiment remote text s)) = calls s"
proof -
  from assms(1) have m: "\<not> truthy text \<or> isna text" by auto
  then have b: "get_sentiment_body remote text s = (Inr ''Neutral'', s)"
    by (simp add: get_sentiment_body_def)
  show ?thesis
  proof (cases "map_of (cache s) text")
    case None
    from get_sentiment_miss [OF None b] b show ?thesis by simp
  next
    case (Some u)
    obtain v shown where u: "u = (v, shown)" by (cases u)
    from cache_sound_lookup [OF assms(2) Some [unfolded u] m] have "v = ''Neutral''" .
    with Some u b show ?thesis by (simp add: get_sentiment_hit)
  qed
qed

theorem get_sentiment_missing_is_neutral_witness:
  "get_sentiment_body (\<lambda>h r. Choices [Some ''Positive'']) (Str []) init_state = (Inr ''Neutral'', init_state)
   \<and> fst (get_sentiment (\<lambda>h r. Choices [Some ''Positive'']) (Str []) init_state) = Inr ''Neutral''
   \<and> calls (snd (get_sentiment (\<lambda>h r. Choices [Some ''Positive'']) (Str []) init_state)) = []"
proof -
  have c: "cache_sound (cache init_state)" by (simp add: cache_sound_def init_state_def)
  have t: "Str [] = Str [] \<or> Str [] = PyNone \<or> Str [] = NaN" by simp
  from get_sentiment_missing_is_neutral [OF t c, of "\<lambda>h r. Choices [Some ''Positive'']"]
  show ?thesis by (simp add: init_state_def)
qed

text \<open>
  C3. \<^verbatim>\<open>get_sentiment\<close> never raises: with or without the decorator it returns a label.
  When the text is not missing, is not in the store, and the remote call fails (the
  request raises, or the response has no choice or no content), the function returns
  Neutral, shows one error message that carries the exception, and leaves the table
  of the session alone.
\<close>

theorem get_sentiment_remote_failure:
  "(\<exists>label. fst (get_sentiment remote text s) = Inr label)
   \<and> (\<exists>label. fst (get_sentiment_body remote text s) = Inr label)
   \<and> (truthy text \<and> \<not> isna text \<and> map_of (cache s) text = None
        \<and> first_content (remote (calls s) (sentiment_request text)) = Inl e \<longrightarrow>
          fst (get_sentiment remote text s) = Inr ''Neutral''
        \<and> messages (snd (get_sentiment remote text s)) = messages s @ [ApiErrorMsg e]
        \<and> severity_of (ApiErrorMsg e) = Error
        \<and> session_df (snd (get_sentiment remote text s)) = session_df s)"
proof -
  have total: "\<exists>label. fst (get_sentiment remote text s) = Inr label"
    using get_sentiment_never_raises [of remote "text" s] by auto
  have total_body: "\<exists>label. fst (get_sentiment_body remote text s) = Inr label"
    using body_never_raises [of remote "text" s] by auto
  have failure: "fst (get_sentiment remote text s) = Inr ''Neutral''
        \<and> messages (snd (get_sentiment remote text s)) = messages s @ [ApiErrorMsg e]
        \<and> severity_of (ApiErrorMsg e) = Error
        \<and> session_df (snd (get_sentiment remote text s)) = session_df s"
    if a: "truthy text" "\<not> isna text" "map_of (cache s) text = None"
      "first_content (remote (calls s) (sentiment_request text)) = Inl e"
  proof -
    have b: "get_sentiment_body remote text s =
        (Inr ''Neutral'', s\<lparr>calls := calls s @ [sentiment_request text],
                            messages := messages s @ [ApiErrorMsg e]\<rparr>)"
      using a(1,2,4) by (simp add: get_sentiment_body_def Let_def)
    from get_sentiment_miss [OF a(3) b] show ?thesis by simp
  qed
  from total total_body failure show ?thesis by blast
qed

theorem get_sentiment_remote_failure_witness:
  "fst (get_sentiment (\<lambda>h r. Raises ''timeout'') (Str ''great class'') init_state) = Inr ''Neutral''
   \<and> messages (snd (get_sentiment (\<lambda>h r. Raises ''timeout'') (Str ''great class'') init_state))
       = [ApiErrorMsg (APIError ''timeout'')]"
proof -
  have 1: "truthy (Str ''great class'')" by simp
  have 2: "\<not> isna (Str ''great class'')" by simp
  have 3: "map_of (cache init_state) (Str ''great class'') = None" by (simp add: init_state_def)
  have 4: "first_content ((\<lambda>h r. Raises ''timeout'') (calls init_state) (sentiment_request (Str ''great class'')))
            = Inl (APIError ''timeout'')" by simp
  from get_sentiment_remote_failure
         [of "\<lambda>h r. Raises ''timeout''" "Str ''great class''" init_state "APIError ''timeout''"] 1 2 3 4
  show ?thesis by (simp add: init_state_def)
qed

text \<open>
  C8. Submitting a text twice, with any other classifications in between: the second
  call returns the label of the first and sends nothing to the endpoint, and the first
  call sends at most one request. So the two calls together send at most one.
\<close>

theorem get_sentiment_memoized:
  "fst (get_sentiment remote text (classify_all remote others (snd (get_sentiment remote text s))))
     = fst (get_sentiment remote text s)
   \<and> calls (snd (get_sentiment remote text (classify_all remote others (snd (get_sentiment remote text s)))))
     = calls (classify_all remote others (snd (get_sentiment remote text s)))
   \<and> length (calls (snd (get_sentiment remote text s))) \<le> Suc (length (calls s))"
proof -
  obtain v s1 where g: "get_sentiment remote text s = (Inr v, s1)"
    using get_sentiment_never_raises by blast
  obtain shown where "map_of (cache s1) text = Some (v, shown)"
    using get_sentiment_stores [OF g] by blast
  then have "map_of (cache (classify_all remote others s1)) text = Some (v, shown)"
    by (rule classify_all_keeps)
  then have "get_sentiment remote text (classify_all remote others s1)
              = (Inr v, (classify_all remote others s1)
                   \<lparr>messages := messages (classify_all remote others s1) @ shown\<rparr>)"
    using get_sentiment_hit by fastforce
  with g get_sentiment_calls_le [of remote "text" s] show ?thesis by simp
qed

text \<open>
  C9. A string of whitespace only is neither falsy nor missing, so the guard does not
  apply: the body sends the request, whose user content ends with the text as it is, and
  so does the memoised function when the text is not in the store yet.
\<close>

theorem whitespace_text_is_submitted:
  assumes "text \<noteq> []" and "list_all is_space text"
  shows "truthy (Str text) \<and> \<not> isna (Str text)
       \<and> calls (snd (get_sentiment_body remote (Str text) s)) = calls s @ [sentiment_request (Str text)]
       \<and> user_content (sentiment_request (Str text)) = ''What's the sentiment of this feedback? '' @ text
       \<and> (map_of (cache s) (Str text) = None \<longrightarrow>
            calls (snd (get_sentiment remote (Str text) s)) = calls s @ [sentiment_request (Str text)])"
proof -
  have t: "truthy (Str text)" "\<not> isna (Str text)" using assms(1) by simp_all
  have c: "calls (snd (get_sentiment_body remote (Str text) s)) = calls s @ [sentiment_request (Str text)]"
    using t by (simp add: get_sentiment_body_def Let_def split: sum.split)
  have m: "calls (snd (get_sentiment remote (Str text) s)) = calls s @ [sentiment_request (Str text)]"
    if n: "map_of (cache s) (Str text) = None"
  proof -
    obtain l b where b: "get_sentiment_body remote (Str text) s = (Inr l, b)"
      using body_never_raises by blast
    from get_sentiment_miss [OF n b] c b show ?thesis by simp
  qed
  show ?thesis using t c m by (simp add: sentiment_request_def)
qed

theorem whitespace_text_is_submitted_witness:
  "calls (snd (get_sentiment_body (\<lambda>h r. Choices [Some ''Neutral'']) (Str ''  '') init_state))
     = [sentiment_request (Str ''  '')]
   \<and> calls (snd (get_sentiment (\<lambda>h r. Choices [Some ''Neutral'']) (Str ''  '') init_state))
     = [sentiment_request (Str ''  '')]"
proof -
  have 1: "''  '' \<noteq> []" by simp
  have 2: "list_all is_space ''  ''" by (simp add: is_space_def)
  have 3: "map_of (cache init_state) (Str ''  '') = None" by (simp add: init_state_def)
  from whitespace_text_is_submitted [OF 1 2, of "\<lambda>h r. Choices [Some ''Neutral'']" init_state] 3
  show ?thesis by (simp add: init_state_def)
qed

section \<open>Analyze Sentiment\<close>

lemma get_sentiment_session_df: "session_df (snd (get_sentiment remote text s)) = session_df s"
proof (cases "map_of (cache s) text")
  case None
  obtain l b where b: "get_sentiment_body remote text s = (Inr l, b)"
    using body_never_raises by blast
  from body_session_df [of remote "text" s] b have "session_df b = session_df s" by simp
  with get_sentiment_miss [OF None b] show ?thesis by simp
next
  case (Some u)
  then show ?thesis by (simp add: get_sentiment_hit)
qed

lemma series_apply_get_sentiment:
  "\<exists>vals s1. series_apply (get_sentiment remote) xs s = (Inr vals, s1)
      \<and> length vals = length xs \<and> list_all (\<lambda>v. \<not> isna v) vals \<and> session_df s1 = session_df s"
proof (induction xs arbitrary: s)
  case Nil
  then show ?case by simp
next
  case (Cons x xs)
  obtain v s1 where g: "get_sentiment remote x s = (Inr v, s1)"
    using get_sentiment_never_raises by blast
  have d: "session_df s1 = session_df s" using get_sentiment_session_df [of remote x s] g by simp
  from Cons.IH [of s1] obtain vals s2 where
    r: "series_apply (get_sentiment remote) xs s1 = (Inr vals, s2)"
      "length vals = length xs" "list_all (\<lambda>v. \<not> isna v) vals" "session_df s2 = session_df s1"
    by blast
  from g r d show ?case by simp
qed

lemma column_sentiment_written:
  "column (sentiment_written d vals) ''Sentiment'' =
     Some (map (\<lambda>i. if i \<le> 4 then (if i < length vals then vals ! i else NaN)
                     else (case column d ''Sentiment'' of Some c \<Rightarrow> c | None \<Rightarrow> replicate (nrows d) NaN) ! i)
               [0..<nrows d])"
  by (simp add: sentiment_written_def column_def Let_def update_conv')

lemma nrows_sentiment_written: "nrows (sentiment_written d vals) = nrows d"
  by (simp add: sentiment_written_def Let_def)

lemma sentiment_at_written_prefix:
  "i < nrows d \<Longrightarrow> i \<le> 4 \<Longrightarrow> i < length vals \<Longrightarrow> sentiment_at (sentiment_written d vals) i = vals ! i"
  by (simp add: sentiment_at_def column_sentiment_written)

lemma sentiment_at_written_rest:
  "i < nrows d \<Longrightarrow> 4 < i \<Longrightarrow> sentiment_at (sentiment_written d vals) i = sentiment_at d i"
  by (simp add: sentiment_at_def column_sentiment_written split: option.split)

lemma wf_df_column_length: "wf_df d \<Longrightarrow> column d name = Some c \<Longrightarrow> length c = nrows d"
  by (auto simp add: wf_df_def column_def list_all_iff dest: map_of_SomeD)

text \<open>
  The \<^verbatim>\<open>try\<close> block with the classifier of the repository: every label of the prefix is
  computed, and what is left to fail is the assignment.
\<close>

lemma analyze_try_get_sentiment:
  assumes "session_df s = Some d" and "column d ''comment'' = Some col"
  shows "\<exists>vals s1. series_apply (get_sentiment remote) (take 5 col) s = (Inr vals, s1)
           \<and> length vals = length (take 5 col) \<and> list_all (\<lambda>v. \<not> isna v) vals
           \<and> session_df s1 = Some d
           \<and> analyze_try strict (get_sentiment remote) s =
               (case loc_set_sentiment strict d vals of
                  Inl e \<Rightarrow> (Inl e, s1)
                | Inr d2 \<Rightarrow> (Inr (), s1\<lparr>session_df := Some d2,
                                         messages := messages s1 @ [AnalysisCompleted]\<rparr>))"
proof -
  obtain vals s1 where a: "series_apply (get_sentiment remote) (take 5 col) s = (Inr vals, s1)"
    and l: "length vals = length (take 5 col)" and v: "list_all (\<lambda>v. \<not> isna v) vals"
    and k: "session_df s1 = session_df s"
    using series_apply_get_sentiment by blast
  from assms a k have "analyze_try strict (get_sentiment remote) s =
      (case loc_set_sentiment strict d vals of
         Inl e \<Rightarrow> (Inl e, s1)
       | Inr d2 \<Rightarrow> (Inr (), s1\<lparr>session_df := Some d2,
                                messages := messages s1 @ [AnalysisCompleted]\<rparr>))"
    by (simp add: analyze_try_def)
  with a l v k assms(1) show ?thesis by simp
qed

lemma analyze_sentiment_unfold:
  "session_df s = Some d \<Longrightarrow>
     analyze_sentiment strict remote s =
       (case analyze_try strict (get_sentiment remote) s of
          (Inr u, s1) \<Rightarrow> s1
        | (Inl e, s1) \<Rightarrow> s1\<lparr>messages := messages s1 @ [SomethingWentWrong e]\<rparr>)"
  by (simp add: analyze_sentiment_def analyze_with_def)

text \<open>The store stays sound through both button handlers.\<close>

lemma cache_sound_series_apply:
  "cache_sound (cache s) \<Longrightarrow> cache_sound (cache (snd (series_apply (get_sentiment remote) xs s)))"
proof (induction xs arbitrary: s)
  case Nil
  then show ?case by simp
next
  case (Cons x xs)
  obtain v s1 where g: "get_sentiment remote x s = (Inr v, s1)"
    using get_sentiment_never_raises by blast
  have "cache_sound (cache s1)" using cache_sound_get_sentiment [OF Cons.prems, of remote x] g by simp
  from Cons.IH [OF this] g show ?case by (auto split: prod.split sum.split)
qed

lemma cache_sound_analyze_sentiment:
  assumes "cache_sound (cache s)"
  shows "cache_sound (cache (analyze_sentiment strict remote s))"
proof (cases "session_df s")
  case None
  with assms show ?thesis by (simp add: analyze_sentiment_def analyze_with_def)
next
  case (Some d)
  show ?thesis
  proof (cases "column d ''comment''")
    case None
    with Some assms show ?thesis
      by (simp add: analyze_sentiment_def analyze_with_def analyze_try_def)
  next
    case (Some col)
    from analyze_try_get_sentiment [OF \<open>session_df s = Some d\<close> Some, of remote strict]
    obtain vals s1 where a: "series_apply (get_sentiment remote) (take 5 col) s = (Inr vals, s1)"
      and t: "analyze_try strict (get_sentiment remote) s =
               (case loc_set_sentiment strict d vals of
                  Inl e \<Rightarrow> (Inl e, s1)
                | Inr d2 \<Rightarrow> (Inr (), s1\<lparr>session_df := Some d2,
                                         messages := messages s1 @ [AnalysisCompleted]\<rparr>))"
      by blast
    from cache_sound_series_apply [OF assms, of remote "take 5 col"] a
    have "cache_sound (cache s1)" by simp
    with t show ?thesis
      by (simp add: analyze_sentiment_unfold [OF \<open>session_df s = Some d\<close>] split: sum.split)
  qed
qed

lemma cache_load_dataset: "cache (load_dataset file s) = cache s"
  by (simp add: load_dataset_def split: option.split)

text \<open>
  C1 (amended). For a table in the session that has a comment column, after Analyze
  Sentiment the table has the same rows and every row after the fifth keeps the
  Sentiment cell it had. When the table had no Sentiment column, the rows that carry a
  Sentiment value are exactly the first five (all rows, when there are fewer). When it
  had one, each of the first five rows carries a value unless the library refuses the
  assignment (a strict library and a Sentiment column of a numeric dtype).
\<close>

theorem analyze_sentiment_labels_prefix:
  assumes "wf_df d" and "session_df s = Some d" and "column d ''comment'' = Some col"
  shows "\<exists>d'. session_df (analyze_sentiment strict remote s) = Some d' \<and> nrows d' = nrows d
          \<and> (\<forall>i < nrows d. 5 \<le> i \<longrightarrow> sentiment_at d' i = sentiment_at d i)
          \<and> (column d ''Sentiment'' = None \<longrightarrow> (\<forall>i < nrows d. carries_sentiment d' i = (i < 5)))
          \<and> ((\<exists>old. column d ''Sentiment'' = Some old \<and> \<not> (strict \<and> numeric_dtype old)) \<longrightarrow>
                (\<forall>i < nrows d. i < 5 \<longrightarrow> carries_sentiment d' i))"
proof -
  from analyze_try_get_sentiment [OF assms(2,3), of remote strict]
  obtain vals s1 where l: "length vals = length (take 5 col)"
    and v: "list_all (\<lambda>v. \<not> isna v) vals"
    and t: "analyze_try strict (get_sentiment remote) s =
               (case loc_set_sentiment strict d vals of
                  Inl e \<Rightarrow> (Inl e, s1)
                | Inr d2 \<Rightarrow> (Inr (), s1\<lparr>session_df := Some d2,
                                         messages := messages s1 @ [AnalysisCompleted]\<rparr>))"
    and k: "session_df s1 = Some d"
    by blast
  have n: "length col = nrows d" by (rule wf_df_column_length [OF assms(1,3)])
  let ?refused = "strict \<and> (case column d ''Sentiment'' of Some c \<Rightarrow> numeric_dtype c | None \<Rightarrow> False)
                    \<and> vals \<noteq> []"
  show ?thesis
  proof (cases ?refused)
    case True
    then have "loc_set_sentiment strict d vals = Inl TypeError" by (simp add: loc_set_sentiment_def)
    with t k have r: "session_df (analyze_sentiment strict remote s) = Some d"
      by (simp add: analyze_sentiment_unfold [OF assms(2)])
    from True obtain old where "column d ''Sentiment'' = Some old" "strict" "numeric_dtype old"
      by (cases "column d ''Sentiment''") simp_all
    with r show ?thesis by simp
  next
    case False
    let ?d = "sentiment_written d vals"
    from False have "loc_set_sentiment strict d vals = Inr ?d" by (simp add: loc_set_sentiment_def)
    with t have r: "session_df (analyze_sentiment strict remote s) = Some ?d"
      by (simp add: analyze_sentiment_unfold [OF assms(2)])
    have p: "carries_sentiment ?d i" if "i < nrows d" "i < 5" for i
    proof -
      from that l n have "i < length vals" by simp
      with that have "sentiment_at ?d i = vals ! i" by (simp add: sentiment_at_written_prefix)
      moreover from v \<open>i < length vals\<close> have "\<not> isna (vals ! i)" by (simp add: list_all_length)
      ultimately show ?thesis by (simp add: carries_sentiment_def)
    qed
    have q: "sentiment_at ?d i = sentiment_at d i" if "i < nrows d" "5 \<le> i" for i
      using that by (simp add: sentiment_at_written_rest)
    have e: "carries_sentiment ?d i = (i < 5)" if "i < nrows d" "column d ''Sentiment'' = None" for i
    proof (cases "i < 5")
      case True
      with p that show ?thesis by simp
    next
      case False
      with q [of i] that have "sentiment_at ?d i = NaN" by (simp add: sentiment_at_def)
      with False show ?thesis by (simp add: carries_sentiment_def)
    qed
    from r p q e show ?thesis by (simp add: nrows_sentiment_written)
  qed
qed

theorem analyze_sentiment_labels_prefix_witness:
  "\<exists>d'. session_df (analyze_sentiment True (replying ''Neutral'') (load_dataset (Some plain_table) init_state)) = Some d'
        \<and> nrows d' = 6 \<and> (\<forall>i < 6. carries_sentiment d' i = (i < 5))"
proof -
  let ?s = "load_dataset (Some plain_table) init_state"
  have 1: "wf_df plain_table" by (simp add: wf_df_def plain_table_def)
  have 2: "session_df ?s = Some plain_table"
    by (simp add: load_dataset_def head_df_def plain_table_def init_state_def)
  have 3: "column plain_table ''comment'' = Some [Str ''a'', Str ''b'', Str ''c'', Str ''d'', Str ''e'', Str ''f'']"
    by (simp add: column_def plain_table_def)
  have 4: "column plain_table ''Sentiment'' = None" by (simp add: column_def plain_table_def)
  have 5: "nrows plain_table = 6" by (simp add: plain_table_def)
  from analyze_sentiment_labels_prefix [OF 1 2 3, of True "replying ''Neutral''"] 4 5
  show ?thesis by auto
qed

text \<open>
  C1 as stated fails on a table that is loaded with a Sentiment column: its sixth row
  (index 5) still carries the label it came with after the analysis, whether the library
  is strict or not.
\<close>

theorem analyze_sentiment_later_row_counterexample:
  "nrows (the (session_df (analyze_sentiment True (replying ''Neutral'') (load_dataset (Some labelled_table) init_state)))) = 6
   \<and> carries_sentiment (the (session_df (analyze_sentiment True (replying ''Neutral'') (load_dataset (Some labelled_table) init_state)))) 5
   \<and> nrows (the (session_df (analyze_sentiment False (replying ''Neutral'') (load_dataset (Some labelled_table) init_state)))) = 6
   \<and> carries_sentiment (the (session_df (analyze_sentiment False (replying ''Neutral'') (load_dataset (Some labelled_table) init_state)))) 5"
  by (simp add: analyze_sentiment_def analyze_with_def analyze_try_def load_dataset_def init_state_def
      head_df_def column_def get_sentiment_def cache_data_def get_sentiment_body_def replying_def
      strip_def is_space_def loc_set_sentiment_def sentiment_written_def numeric_dtype_def Let_def
      sentiment_at_def carries_sentiment_def sentiment_request_def labelled_table_def)

text \<open>
  C5 (amended). When an exception leaves the \<^verbatim>\<open>try\<close> block of the handler, the handler
  shows one error message and writes nothing: the state is the one reached when the
  exception was raised, with the message added, and the table of the session is the one
  before the action. The exception is the KeyError of a missing comment column, raised
  before any label is computed, or the TypeError of a refused assignment, raised after
  all of them were.
\<close>

theorem analyze_exception_writes_nothing:
  assumes "session_df s = Some d"
    and "analyze_try strict (get_sentiment remote) s = (Inl e, s1)"
  shows "analyze_sentiment strict remote s = s1\<lparr>messages := messages s1 @ [SomethingWentWrong e]\<rparr>
       \<and> severity_of (SomethingWentWrong e) = Error
       \<and> session_df (analyze_sentiment strict remote s) = Some d
       \<and> (e = KeyError [''comment''] \<and> column d ''comment'' = None \<and> s1 = s
          \<or> e = TypeError \<and> strict \<and> (\<exists>old. column d ''Sentiment'' = Some old \<and> numeric_dtype old))"
proof -
  have a: "analyze_sentiment strict remote s = s1\<lparr>messages := messages s1 @ [SomethingWentWrong e]\<rparr>"
    using assms(2) by (simp add: analyze_sentiment_unfold [OF assms(1)])
  have b: "session_df s1 = Some d
       \<and> (e = KeyError [''comment''] \<and> column d ''comment'' = None \<and> s1 = s
          \<or> e = TypeError \<and> strict \<and> (\<exists>old. column d ''Sentiment'' = Some old \<and> numeric_dtype old))"
  proof (cases "column d ''comment''")
    case None
    with assms show ?thesis by (auto simp add: analyze_try_def)
  next
    case (Some col)
    from analyze_try_get_sentiment [OF assms(1) Some, of remote strict]
    obtain vals s2 where k: "session_df s2 = Some d"
      and t: "analyze_try strict (get_sentiment remote) s =
               (case loc_set_sentiment strict d vals of
                  Inl e \<Rightarrow> (Inl e, s2)
                | Inr d2 \<Rightarrow> (Inr (), s2\<lparr>session_df := Some d2,
                                         messages := messages s2 @ [AnalysisCompleted]\<rparr>))"
      by blast
    from t assms(2) have "loc_set_sentiment strict d vals = Inl e \<and> s1 = s2"
      by (cases "loc_set_sentiment strict d vals") simp_all
    then have "s1 = s2" and "e = TypeError" and "strict"
      and "\<exists>old. column d ''Sentiment'' = Some old \<and> numeric_dtype old"
      by (auto simp add: loc_set_sentiment_def split: if_splits option.splits)
    with k show ?thesis by simp
  qed
  from a b show ?thesis by simp
qed

theorem analyze_exception_writes_nothing_witness:
  "analyze_sentiment True (replying ''Positive'') (load_dataset (Some no_comment_table) init_state)
     = \<lparr>session_df = Some no_comment_table, cache = [], calls = [],
        messages = [DatasetLoaded, SomethingWentWrong (KeyError [''comment''])]\<rparr>"
proof -
  let ?s = "load_dataset (Some no_comment_table) init_state"
  have s: "?s = \<lparr>session_df = Some no_comment_table, cache = [], calls = [], messages = [DatasetLoaded]\<rparr>"
    by (simp add: load_dataset_def head_df_def no_comment_table_def init_state_def)
  have 1: "session_df ?s = Some no_comment_table" by (simp add: s)
  have c: "column no_comment_table ''comment'' = None" by (simp add: column_def no_comment_table_def)
  have 2: "analyze_try True (get_sentiment (replying ''Positive'')) ?s = (Inl (KeyError [''comment'']), ?s)"
    using 1 c by (simp add: analyze_try_def)
  from analyze_exception_writes_nothing [OF 1 2] show ?thesis by (simp add: s)
qed

text \<open>
  C5 as stated fails under a strict library on a table loaded with an empty Sentiment
  column: both rows are classified (two requests are sent and both labels are in the
  store), then the assignment raises TypeError; the error message is shown and neither
  label is in the table.
\<close>

theorem analyze_partial_write_counterexample:
  "messages (analyze_sentiment True (replying ''Positive'') (load_dataset (Some empty_sentiment_table) init_state))
     = [DatasetLoaded, SomethingWentWrong TypeError]
   \<and> length (calls (analyze_sentiment True (replying ''Positive'') (load_dataset (Some empty_sentiment_table) init_state))) = 2
   \<and> map_of (cache (analyze_sentiment True (replying ''Positive'') (load_dataset (Some empty_sentiment_table) init_state)))
        (Str ''good'') = Some (''Positive'', [])
   \<and> \<not> carries_sentiment
         (the (session_df (analyze_sentiment True (replying ''Positive'') (load_dataset (Some empty_sentiment_table) init_state)))) 0
   \<and> \<not> carries_sentiment
         (the (session_df (analyze_sentiment True (replying ''Positive'') (load_dataset (Some empty_sentiment_table) init_state)))) 1"
  by (simp add: analyze_sentiment_def analyze_with_def analyze_try_def load_dataset_def init_state_def
      head_df_def column_def get_sentiment_def cache_data_def get_sentiment_body_def replying_def
      strip_def is_space_def loc_set_sentiment_def numeric_dtype_def Let_def
      sentiment_at_def carries_sentiment_def sentiment_request_def empty_sentiment_table_def)

section \<open>Filtering by student\<close>

lemma zip_as_map:
  "length c = length keep \<Longrightarrow> zip c keep = map (\<lambda>i. (c ! i, keep ! i)) [0..<length keep]"
  by (rule nth_equalityI) simp_all

lemma kept_cells:
  assumes "length c = length keep"
  shows "map fst (filter snd (zip c keep)) = map (\<lambda>i. c ! i) (filter (\<lambda>i. keep ! i) [0..<length keep])"
  by (simp add: zip_as_map [OF assms] filter_map comp_def)

lemma kept_count:
  "length (filter (\<lambda>b. b) keep) = length (filter (\<lambda>i. keep ! i) [0..<length keep])"
proof -
  have "filter (\<lambda>b. b) (map (\<lambda>i. keep ! i) [0..<length keep])
          = map (\<lambda>i. keep ! i) (filter (\<lambda>i. keep ! i) [0..<length keep])"
    by (simp add: filter_map comp_def)
  then have "length (filter (\<lambda>b. b) (map (\<lambda>i. keep ! i) [0..<length keep]))
          = length (filter (\<lambda>i. keep ! i) [0..<length keep])"
    by simp
  then show ?thesis by (simp only: map_nth)
qed

lemma rows_select_rows:
  assumes "wf_df d" and "length keep = nrows d"
  shows "rows (select_rows keep d) = map (row d) (filter (\<lambda>i. keep ! i) [0..<nrows d])"
proof -
  let ?idx = "filter (\<lambda>i. keep ! i) [0..<nrows d]"
  have n: "nrows (select_rows keep d) = length ?idx"
    using kept_count [of keep] assms(2) by (simp add: select_rows_def)
  have r: "row (select_rows keep d) j = row d (?idx ! j)" if j: "j < length ?idx" for j
  proof -
    have "(case p of (name, c) \<Rightarrow> (name, map fst (filter snd (zip c keep)) ! j))
            = (case p of (name, c) \<Rightarrow> (name, c ! (?idx ! j)))"
      if p: "p \<in> set (columns d)" for p
    proof -
      obtain name c where pc: "p = (name, c)" by (cases p)
      with p assms(1) have "length c = nrows d" by (auto simp add: wf_df_def list_all_iff)
      with assms(2) have "length c = length keep" by simp
      from kept_cells [OF this] assms(2) j pc show ?thesis by simp
    qed
    then show ?thesis by (simp add: row_def select_rows_def comp_def case_prod_unfold)
  qed
  have "rows (select_rows keep d) = map (\<lambda>j. row d (?idx ! j)) [0..<length ?idx]"
    using r by (simp add: rows_def n)
  also have "\<dots> = map (row d) (map (\<lambda>j. ?idx ! j) [0..<length ?idx])" by (simp add: comp_def)
  also have "\<dots> = map (row d) ?idx" by (simp only: map_nth)
  finally show ?thesis .
qed

lemma names_select_rows: "map fst (columns (select_rows keep d)) = map fst (columns d)"
  by (simp add: select_rows_def comp_def case_prod_unfold)

text \<open>
  C6 (amended). For a table with an Id column: the selection All IDs gives the table
  itself; any other selection gives exactly the rows whose Id equals it, in their order
  (none, when no Id equals it), under the same column names.
\<close>

theorem filter_by_id_rows:
  assumes "wf_df df" and "column df ''Id'' = Some ids"
  shows "filter_by_id df ids (Str ''All IDs'') = df
       \<and> (selected_id \<noteq> Str ''All IDs'' \<longrightarrow>
            rows (filter_by_id df ids selected_id)
              = map (row df) (filter (\<lambda>i. cell_eq (ids ! i) selected_id) [0..<nrows df])
          \<and> map fst (columns (filter_by_id df ids selected_id)) = map fst (columns df))"
proof -
  have n: "length ids = nrows df" by (rule wf_df_column_length [OF assms])
  have "rows (select_rows (map (\<lambda>v. cell_eq v selected_id) ids) df)
          = map (row df) (filter (\<lambda>i. cell_eq (ids ! i) selected_id) [0..<nrows df])"
  proof -
    have "filter (\<lambda>i. map (\<lambda>v. cell_eq v selected_id) ids ! i) [0..<nrows df]
            = filter (\<lambda>i. cell_eq (ids ! i) selected_id) [0..<nrows df]"
      by (rule filter_cong) (simp_all add: n)
    with rows_select_rows [OF assms(1), of "map (\<lambda>v. cell_eq v selected_id) ids"] n
    show ?thesis by simp
  qed
  then show ?thesis by (simp add: filter_by_id_def names_select_rows)
qed

theorem filter_by_id_rows_witness:
  "filter_by_id plain_table [Num 1, Num 2, Num 3, Num 4, Num 5, Num 6] (Str ''All IDs'') = plain_table
   \<and> rows (filter_by_id plain_table [Num 1, Num 2, Num 3, Num 4, Num 5, Num 6] (Num 3))
       = [[(''Id'', Num 3), (''comment'', Str ''c'')]]"
proof -
  have 1: "wf_df plain_table" by (simp add: wf_df_def plain_table_def)
  have 2: "column plain_table ''Id'' = Some [Num 1, Num 2, Num 3, Num 4, Num 5, Num 6]"
    by (simp add: column_def plain_table_def)
  have 3: "Num 3 \<noteq> Str ''All IDs''" by simp
  have 4: "nrows plain_table = 6" by (simp add: plain_table_def)
  have 5: "[0..<6] = [0, 1, 2, 3, 4, 5]" by (simp add: upt_rec)
  have 6: "row plain_table 2 = [(''Id'', Num 3), (''comment'', Str ''c'')]"
    by (simp add: row_def plain_table_def)
  from filter_by_id_rows [OF 1 2, of "Num 3"] 3 show ?thesis by (simp add: 4 5 6)
qed

text \<open>
  C6 as stated fails when an identifier of the table is the text All IDs: the select box
  offers it at position 1, choosing it gives both rows of the table, and one row has
  that identifier.
\<close>

theorem filter_by_id_sentinel_counterexample:
  "column sentinel_table ''Id'' = Some [Str ''All IDs'', Str ''s1'']
   \<and> selectbox (Str ''All IDs'' # unique [Str ''All IDs'', Str ''s1'']) 1 = Str ''All IDs''
   \<and> nrows (filter_by_id sentinel_table [Str ''All IDs'', Str ''s1'']
              (selectbox (Str ''All IDs'' # unique [Str ''All IDs'', Str ''s1'']) 1)) = 2
   \<and> length (filter (\<lambda>v. cell_eq v (Str ''All IDs'')) [Str ''All IDs'', Str ''s1'']) = 1"
  by (simp add: column_def sentinel_table_def selectbox_def unique_def filter_by_id_def)

section \<open>Sentiment breakdown\<close>


lemma set_unique: "set (unique xs) = set xs"
  by (simp add: unique_def)

lemma distinct_unique: "distinct (unique xs)"
  by (simp add: unique_def)

lemma unique_distinct: "distinct xs \<Longrightarrow> unique xs = xs"
  by (simp add: unique_def distinct_remdups_id)

lemma sum_list_count_unique: "sum_list (map (count_list xs) (unique xs)) = length xs"
proof -
  have "sum_list (map (count_list xs) (unique xs)) = sum (count_list xs) (set (unique xs))"
    by (rule sum_list_distinct_conv_sum_set [OF distinct_unique])
  also have "\<dots> = length xs" by (simp add: set_unique sum_count_set)
  finally show ?thesis .
qed

lemma mset_value_counts:
  "mset (value_counts col) =
     mset (map (\<lambda>v. (v, count_list (filter (\<lambda>v. \<not> isna v) col) v)) (unique (filter (\<lambda>v. \<not> isna v) col)))"
  by (simp add: value_counts_def Let_def)

lemma map_fst_value_counts_mset:
  "mset (map fst (value_counts col)) = mset (unique (filter (\<lambda>v. \<not> isna v) col))"
proof -
  have "mset (map fst (value_counts col)) = image_mset fst (mset (value_counts col))" by simp
  also have "\<dots> = mset (unique (filter (\<lambda>v. \<not> isna v) col))"
    by (simp only: mset_value_counts) (simp add: image_mset.compositionality comp_def)
  finally show ?thesis .
qed

lemma set_fst_value_counts: "set (map fst (value_counts col)) = {v \<in> set col. \<not> isna v}"
proof -
  have "set (map fst (value_counts col)) = set (unique (filter (\<lambda>v. \<not> isna v) col))"
    using map_fst_value_counts_mset [of col] by (rule mset_eq_setD)
  then show ?thesis by (auto simp add: set_unique)
qed

lemma distinct_fst_value_counts: "distinct (map fst (value_counts col))"
  using map_fst_value_counts_mset [of col] distinct_unique mset_eq_imp_distinct_iff by blast

lemma value_counts_entry:
  "(v, n) \<in> set (value_counts col) \<Longrightarrow> \<not> isna v \<and> v \<in> set col \<and> n = count_list (filter (\<lambda>v. \<not> isna v) col) v"
proof -
  assume "(v, n) \<in> set (value_counts col)"
  then have "(v, n) \<in> set (map (\<lambda>v. (v, count_list (filter (\<lambda>v. \<not> isna v) col) v)) (unique (filter (\<lambda>v. \<not> isna v) col)))"
    by (simp add: value_counts_def Let_def)
  then show ?thesis by (auto simp add: set_unique)
qed

lemma count_list_filter_notna: "\<not> isna v \<Longrightarrow> count_list (filter (\<lambda>v. \<not> isna v) col) v = count_list col v"
  by (induction col) auto

lemma value_counts_positive: "(v, n) \<in> set (value_counts col) \<Longrightarrow> 1 \<le> n"
proof -
  assume a: "(v, n) \<in> set (value_counts col)"
  from value_counts_entry [OF a] have "n = count_list col v" "v \<in> set col"
    by (simp_all add: count_list_filter_notna)
  then show ?thesis using count_list_0_iff [of col v] by (cases n) simp_all
qed

lemma sum_value_counts: "sum_list (map snd (value_counts col)) = length (filter (\<lambda>v. \<not> isna v) col)"
proof -
  let ?xs = "filter (\<lambda>v. \<not> isna v) col"
  have "sum_list (map snd (value_counts col)) = sum_mset (image_mset snd (mset (value_counts col)))"
    by (metis mset_map sum_mset_sum_list)
  also have "\<dots> = sum_mset (image_mset (count_list ?xs) (mset (unique ?xs)))"
    by (simp only: mset_value_counts) (simp add: image_mset.compositionality comp_def)
  also have "\<dots> = sum_list (map (count_list ?xs) (unique ?xs))"
    by (metis mset_map sum_mset_sum_list)
  also have "\<dots> = length ?xs" by (rule sum_list_count_unique)
  finally show ?thesis .
qed

lemma cell_eq_Str: "cell_eq (Str s) v = (v = Str s)"
  by (cases v) auto

lemma filtered_order_value_counts:
  "filtered_order (value_counts col) = filter (\<lambda>s. Str s \<in> set col) sentiment_order"
proof -
  have "list_ex (cell_eq (Str s)) (existing_sentiments (value_counts col)) = (Str s \<in> set col)" for s
  proof -
    have "list_ex (cell_eq (Str s)) (existing_sentiments (value_counts col))
            = (Str s \<in> set (map fst (value_counts col)))"
      by (simp add: list_ex_iff existing_sentiments_def set_unique cell_eq_Str del: set_map)
    also have "\<dots> = (Str s \<in> set col)" by (simp only: set_fst_value_counts) simp
    finally show ?thesis .
  qed
  then show ?thesis by (simp add: filtered_order_def)
qed

lemma category_code_Some:
  "category_code cats v = Some i \<Longrightarrow> i < length cats \<and> v = Str (cats ! i)"
proof (induction cats arbitrary: i)
  case Nil
  then show ?case by simp
next
  case (Cons c cs)
  show ?case
  proof (cases "cell_eq (Str c) v")
    case True
    with Cons.prems show ?thesis by (simp add: cell_eq_Str)
  next
    case False
    with Cons.prems obtain j where j: "category_code cs v = Some j" "i = Suc j" by auto
    from Cons.IH [OF j(1)] j(2) show ?thesis by simp
  qed
qed

lemma category_code_nth:
  "distinct cats \<Longrightarrow> i < length cats \<Longrightarrow> category_code cats (Str (cats ! i)) = Some i"
proof (induction cats arbitrary: i)
  case Nil
  then show ?case by simp
next
  case (Cons c cs)
  show ?case
  proof (cases i)
    case 0
    then show ?thesis by simp
  next
    case (Suc j)
    with Cons.prems have "j < length cs" "cs ! j \<in> set cs" "c \<notin> set cs" by simp_all
    then have "c \<noteq> cs ! j" by blast
    with Suc Cons.IH [of j] Cons.prems \<open>j < length cs\<close> show ?thesis by simp
  qed
qed

lemma distinct_codes:
  "distinct vs \<Longrightarrow> distinct (List.map_filter (category_code cats) vs)"
proof (induction vs)
  case Nil
  then show ?case by simp
next
  case (Cons v vs)
  show ?case
  proof (cases "category_code cats v")
    case None
    with Cons show ?thesis by simp
  next
    case (Some i)
    have "i \<notin> set (List.map_filter (category_code cats) vs)"
    proof
      assume "i \<in> set (List.map_filter (category_code cats) vs)"
      then obtain w where w: "w \<in> set vs" "category_code cats w = Some i"
        by (auto simp add: map_filter_def)
      from category_code_Some [OF w(2)] category_code_Some [OF Some] have "w = v" by simp
      with w(1) Cons.prems show False by simp
    qed
    with Some Cons show ?thesis by simp
  qed
qed

lemma set_codes:
  assumes "distinct cats" and "\<forall>c \<in> set cats. Str c \<in> set vs"
  shows "set (List.map_filter (category_code cats) vs) = {0..<length cats}"
proof
  show "set (List.map_filter (category_code cats) vs) \<subseteq> {0..<length cats}"
    by (auto simp add: map_filter_def dest: category_code_Some)
next
  show "{0..<length cats} \<subseteq> set (List.map_filter (category_code cats) vs)"
  proof
    fix i assume "i \<in> {0..<length cats}"
    then have i: "i < length cats" by simp
    then have "Str (cats ! i) \<in> set vs" using assms(2) by simp
    moreover have "category_code cats (Str (cats ! i)) = Some i"
      by (rule category_code_nth [OF assms(1) i])
    ultimately show "i \<in> set (List.map_filter (category_code cats) vs)"
      by (force simp add: map_filter_def)
  qed
qed

lemma mset_map_filter_cong:
  "mset xs = mset ys \<Longrightarrow> mset (List.map_filter f xs) = mset (List.map_filter f ys)"
  by (simp add: map_filter_def)

lemma map_filter_fst_codes:
  "List.map_filter fst (map (\<lambda>(v, n). (category_code cats v, n)) sc)
     = List.map_filter (category_code cats) (map fst sc)"
  by (induction sc) (auto split: option.split)

lemma sorted_labelled_codes:
  "sorted (map (\<lambda>(code, n). case code of Some i \<Rightarrow> i | None \<Rightarrow> m) ys)
     \<Longrightarrow> sorted (List.map_filter fst (ys :: (nat option \<times> nat) list))"
proof (induction ys)
  case Nil
  then show ?case by simp
next
  case (Cons y ys)
  obtain code n where y: "y = (code, n)" by (cases y)
  from Cons have IH: "sorted (List.map_filter fst ys)" by simp
  show ?case
  proof (cases code)
    case None
    with y IH show ?thesis by simp
  next
    case (Some i)
    have "i \<le> j" if "j \<in> set (List.map_filter fst ys)" for j
    proof -
      from that obtain k where "(Some j, k) \<in> set ys" by (auto simp add: map_filter_def)
      with Cons.prems y Some show ?thesis by force
    qed
    with y Some IH show ?thesis by simp
  qed
qed

lemma labelled_after_map:
  "List.map_filter fst (map (\<lambda>(code, n). (map_option f code, n)) ys) = map f (List.map_filter fst ys)"
  by (induction ys) (auto split: option.split)

lemma labelled_sort_values:
  assumes "distinct cats" and "distinct (map fst sc)" and "\<forall>c \<in> set cats. Str c \<in> set (map fst sc)"
  shows "List.map_filter fst (sort_values cats sc) = cats"
proof -
  let ?key = "\<lambda>(code :: nat option, n :: nat). case code of Some i \<Rightarrow> i | None \<Rightarrow> length cats"
  let ?rows = "map (\<lambda>(v, n). (category_code cats v, n)) sc"
  let ?C = "List.map_filter fst (sort_key ?key ?rows)"
  have "mset ?C = mset (List.map_filter fst ?rows)"
    by (rule mset_map_filter_cong) simp
  then have m: "mset ?C = mset (List.map_filter (category_code cats) (map fst sc))"
    by (simp only: map_filter_fst_codes)
  have d: "distinct ?C"
    using m distinct_codes [OF assms(2), of cats] mset_eq_imp_distinct_iff by blast
  have "set ?C = set (List.map_filter (category_code cats) (map fst sc))"
    using m by (rule mset_eq_setD)
  then have s: "set ?C = {0..<length cats}" by (simp only: set_codes [OF assms(1,3)])
  have o: "sorted ?C" by (rule sorted_labelled_codes [of "length cats"]) (rule sorted_sort_key)
  have "?C = [0..<length cats]"
    by (rule sorted_distinct_set_unique [OF o d]) (simp_all add: s)
  then have "map (\<lambda>i. cats ! i) ?C = cats" by (simp add: map_nth)
  then show ?thesis by (simp add: sort_values_def labelled_after_map)
qed

lemma mset_snd_sort_values: "mset (map snd (sort_values cats sc)) = mset (map snd sc)"
proof -
  have "map snd (sort_values cats sc)
          = map snd (sort_key (\<lambda>(code, n). case code of Some i \<Rightarrow> i | None \<Rightarrow> length cats)
                       (map (\<lambda>(v, n). (category_code cats v, n)) sc))"
    by (simp add: sort_values_def case_prod_unfold comp_def)
  then have "mset (map snd (sort_values cats sc))
          = image_mset snd (mset (map (\<lambda>(v, n). (category_code cats v, n)) sc))"
    by simp
  also have "\<dots> = mset (map snd sc)"
    by (simp add: image_mset.compositionality comp_def case_prod_unfold)
  finally show ?thesis .
qed

lemma distinct_sentiment_order: "distinct sentiment_order"
  by (simp add: sentiment_order_def)

lemma labelled_bars:
  "List.map_filter fst (bars (sentiment_chart col)) = category_order (sentiment_chart col)"
proof -
  let ?sc = "value_counts col"
  have 1: "distinct (filtered_order ?sc)"
    by (simp add: filtered_order_def distinct_sentiment_order)
  have 2: "distinct (map fst ?sc)" by (rule distinct_fst_value_counts)
  have 3: "\<forall>c \<in> set (filtered_order ?sc). Str c \<in> set (map fst ?sc)"
    by (simp only: set_fst_value_counts filtered_order_value_counts) simp
  from labelled_sort_values [OF 1 2 3] show ?thesis by (simp add: sentiment_chart_def Let_def)
qed

text \<open>
  C7. The category order of the chart is the fixed order Negative, Neutral, Positive
  restricted to the labels that occur in the Sentiment column displayed; the bars that
  carry a category come in exactly that order; a label that does not occur is not in
  the order and has no bar.
\<close>

theorem chart_category_order:
  "category_order (sentiment_chart col)
     = filter (\<lambda>s. Str s \<in> set col) [''Negative'', ''Neutral'', ''Positive'']
   \<and> List.map_filter fst (bars (sentiment_chart col)) = category_order (sentiment_chart col)
   \<and> (\<forall>s. count_list col (Str s) = 0 \<longrightarrow>
          s \<notin> set (category_order (sentiment_chart col))
        \<and> (\<forall>n. (Some s, n) \<notin> set (bars (sentiment_chart col))))"
proof -
  have o: "category_order (sentiment_chart col)
             = filter (\<lambda>s. Str s \<in> set col) [''Negative'', ''Neutral'', ''Positive'']"
    using filtered_order_value_counts [of col]
    by (simp add: sentiment_chart_def Let_def sentiment_order_def)
  have b: "List.map_filter fst (bars (sentiment_chart col)) = category_order (sentiment_chart col)"
    by (rule labelled_bars)
  have z: "s \<notin> set (category_order (sentiment_chart col))
        \<and> (\<forall>n. (Some s, n) \<notin> set (bars (sentiment_chart col)))"
    if "count_list col (Str s) = 0" for s
  proof -
    from that have a: "Str s \<notin> set col" by (simp add: count_list_0_iff)
    have c: "s \<notin> set (category_order (sentiment_chart col))"
    proof
      assume "s \<in> set (category_order (sentiment_chart col))"
      then have "s \<in> set (filter (\<lambda>s. Str s \<in> set col) [''Negative'', ''Neutral'', ''Positive''])"
        by (simp only: o)
      then have "Str s \<in> set col" by (simp only: set_filter) simp
      with a show False by simp
    qed
    have "(Some s, n) \<notin> set (bars (sentiment_chart col))" for n
    proof
      assume "(Some s, n) \<in> set (bars (sentiment_chart col))"
      then have "s \<in> set (List.map_filter fst (bars (sentiment_chart col)))"
        by (force simp add: map_filter_def)
      with b c show False by simp
    qed
    with c show ?thesis by simp
  qed
  from o b z show ?thesis by blast
qed

theorem chart_category_order_witness:
  "category_order (sentiment_chart
      [Str ''Positive'', Str ''Negative'', Str ''Positive'', Str ''Negative'', Str ''Positive''])
     = [''Negative'', ''Positive'']
   \<and> (\<forall>n. (Some ''Neutral'', n) \<notin> set (bars (sentiment_chart
      [Str ''Positive'', Str ''Negative'', Str ''Positive'', Str ''Negative'', Str ''Positive''])))"
proof -
  have "count_list [Str ''Positive'', Str ''Negative'', Str ''Positive'', Str ''Negative'', Str ''Positive'']
          (Str ''Neutral'') = 0"
    by simp
  with chart_category_order
         [of "[Str ''Positive'', Str ''Negative'', Str ''Positive'', Str ''Negative'', Str ''Positive'']"]
  show ?thesis by simp
qed

text \<open>
  C10. Every count of the breakdown is at least 1 and belongs to a value that is not
  missing, and the counts add up to the number of cells of the displayed Sentiment
  column that are not missing; this holds for the table of counts and for the rows
  handed to the bar chart. A row without a Sentiment value is counted nowhere.
\<close>

theorem sentiment_counts_sum:
  "(\<forall>(v, n) \<in> set (value_counts col). 1 \<le> n \<and> \<not> isna v \<and> n = count_list col v)
   \<and> sum_list (map snd (value_counts col)) = length (filter (\<lambda>v. \<not> isna v) col)
   \<and> (\<forall>(l, n) \<in> set (bars (sentiment_chart col)). 1 \<le> n)
   \<and> sum_list (map snd (bars (sentiment_chart col))) = length (filter (\<lambda>v. \<not> isna v) col)"
proof -
  have 1: "\<forall>(v, n) \<in> set (value_counts col). 1 \<le> n \<and> \<not> isna v \<and> n = count_list col v"
  proof (clarify, intro conjI)
    fix v n assume a: "(v, n) \<in> set (value_counts col)"
    show "1 \<le> n" by (rule value_counts_positive [OF a])
    show "\<not> isna v" using value_counts_entry [OF a] by simp
    show "n = count_list col v" using value_counts_entry [OF a] by (simp add: count_list_filter_notna)
  qed
  have 2: "sum_list (map snd (value_counts col)) = length (filter (\<lambda>v. \<not> isna v) col)"
    by (rule sum_value_counts)
  have m: "mset (map snd (bars (sentiment_chart col))) = mset (map snd (value_counts col))"
    by (simp only: sentiment_chart_def Let_def chart.simps mset_snd_sort_values)
  have 3: "\<forall>(l, n) \<in> set (bars (sentiment_chart col)). 1 \<le> n"
  proof (clarify)
    fix l n assume "(l, n) \<in> set (bars (sentiment_chart col))"
    then have "n \<in> set (map snd (bars (sentiment_chart col)))" by force
    then have "n \<in> set (map snd (value_counts col))" using mset_eq_setD [OF m] by simp
    then obtain v where "(v, n) \<in> set (value_counts col)" by auto
    then show "1 \<le> n" by (rule value_counts_positive)
  qed
  have "sum_list (map snd (bars (sentiment_chart col))) = sum_list (map snd (value_counts col))"
    using m by (metis sum_mset_sum_list)
  with 2 have 4: "sum_list (map snd (bars (sentiment_chart col))) = length (filter (\<lambda>v. \<not> isna v) col)"
    by simp
  from 1 2 3 4 show ?thesis by blast
qed

theorem sentiment_counts_sum_witness:
  "sum_list (map snd (value_counts [Str ''Positive'', NaN, Str ''Negative'', Str ''Positive'', NaN])) = 3
   \<and> sum_list (map snd (bars (sentiment_chart [Str ''Positive'', NaN, Str ''Negative'', Str ''Positive'', NaN]))) = 3
   \<and> value_counts [Str ''Positive'', NaN, Str ''Negative'', Str ''Positive'', NaN]
       = [(Str ''Positive'', 2), (Str ''Negative'', 1)]"
proof -
  have v: "value_counts [Str ''Positive'', NaN, Str ''Negative'', Str ''Positive'', NaN]
             = [(Str ''Positive'', 2), (Str ''Negative'', 1)]"
    by (simp add: value_counts_def unique_def)
  from sentiment_counts_sum [of "[Str ''Positive'', NaN, Str ''Negative'', Str ''Positive'', NaN]"]
  have "sum_list (map snd (value_counts [Str ''Positive'', NaN, Str ''Negative'', Str ''Positive'', NaN])) = 3
      \<and> sum_list (map snd (bars (sentiment_chart [Str ''Positive'', NaN, Str ''Negative'', Str ''Positive'', NaN]))) = 3"
    by simp
  with v show ?thesis by simp
qed

section \<open>Rendering\<close>

text \<open>
  With an Id column and a comment column the run completes: it displays the filtered
  rows and, when the table has a Sentiment column, the chart of the filtered Sentiment
  column; it shows no message.
\<close>

lemma names_filter_by_id: "map fst (columns (filter_by_id df ids sel)) = map fst (columns df)"
  by (simp add: filter_by_id_def names_select_rows)

lemma has_column_filter_by_id: "has_column (filter_by_id df ids sel) name = has_column df name"
  by (simp add: has_column_def names_filter_by_id del: set_map)

lemma has_column_iff: "has_column d name = (column d name \<noteq> None)"
  by (simp add: has_column_def column_def map_of_eq_None_iff)

lemma render_with_id:
  assumes "session_df s = Some df" and "column df ''Id'' = Some ids" and "has_column df ''comment''"
  shows "\<exists>shown. fst (render choice s) = Inr (Some \<lparr>feedback = shown,
           breakdown = map_option sentiment_chart
             (column (filter_by_id df ids (selectbox (Str ''All IDs'' # unique ids) choice)) ''Sentiment'')\<rparr>)
         \<and> snd (render choice s) = s"
proof -
  let ?f = "filter_by_id df ids (selectbox (Str ''All IDs'' # unique ids) choice)"
  have "has_column df ''Id''" using assms(2) by (simp add: has_column_iff)
  then have i: "has_column ?f ''Id''" by (simp add: has_column_filter_by_id)
  have c: "has_column ?f ''comment''" using assms(3) by (simp add: has_column_filter_by_id)
  from i c have sel: "select_columns ?f [''Id'', ''comment'']
      = Inr (?f\<lparr>columns := map (\<lambda>n. (n, the (column ?f n))) [''Id'', ''comment'']\<rparr>)"
    by (simp add: select_columns_def)
  show ?thesis
  proof (cases "column ?f ''Sentiment''")
    case None
    then have "\<not> has_column ?f ''Sentiment''" by (simp add: has_column_iff)
    then have "\<not> has_column df ''Sentiment''" by (simp add: has_column_filter_by_id)
    with assms(1,2) sel None show ?thesis by (simp add: render_def Let_def)
  next
    case (Some col)
    then have "has_column ?f ''Sentiment''" by (simp add: has_column_iff)
    then have "has_column df ''Sentiment''" by (simp add: has_column_filter_by_id)
    with assms(1,2) sel Some show ?thesis by (simp add: render_def Let_def)
  qed
qed

text \<open>
  Without an Id column the run does not complete: after the warning, the selection of
  the columns Id and comment raises KeyError.
\<close>

lemma render_without_id_raises:
  assumes "session_df s = Some df" and "column df ''Id'' = None"
  shows "\<exists>missing. render choice s = (Inl (KeyError missing), s\<lparr>messages := messages s @ [NoIdColumn]\<rparr>)"
proof -
  from assms(2) have "\<not> has_column df ''Id''"
    by (simp add: column_def has_column_def map_of_eq_None_iff)
  then have "filter (\<lambda>n. \<not> has_column df n) [''Id'', ''comment''] \<noteq> []" by simp
  then obtain m ms where "filter (\<lambda>n. \<not> has_column df n) [''Id'', ''comment''] = m # ms"
    by (cases "filter (\<lambda>n. \<not> has_column df n) [''Id'', ''comment'']") simp_all
  then have "select_columns df [''Id'', ''comment''] = Inl (KeyError (m # ms))"
    by (simp add: select_columns_def)
  with assms show ?thesis by (simp add: render_def)
qed

text \<open>
  C4. On a loaded table with a comment column and no Id column the script shows the
  warning and then stops with KeyError for Id: nothing is displayed.
\<close>

theorem render_without_id_example:
  "render 0 (load_dataset (Some no_id_table) init_state)
     = (Inl (KeyError [''Id'']),
        \<lparr>session_df = Some no_id_table, cache = [], calls = [],
         messages = [DatasetLoaded, NoIdColumn]\<rparr>)"
  by (simp add: render_def load_dataset_def init_state_def head_df_def no_id_table_def
      column_def select_columns_def has_column_def)

end
